theory Spec2Isabelle
  imports Complex_Main "HOL-Library.Sublist" "HOL-Library.Multiset"
begin

section \<open>Backlinks verifier: fetch, match and batch pipeline of \<^verbatim>\<open>main.py\<close>\<close>

text \<open>
  The development embeds the class \<^verbatim>\<open>BacklinksVerifier\<close> and the summary computed by
  \<^verbatim>\<open>process_backlinks\<close> / \<^verbatim>\<open>verify_backlinks_sync\<close>.

  A Python string is a sequence of Unicode code points, here a list of integers; \<open>asc\<close>
  turns a literal of ASCII characters into such a list. The three case operations
  \<^verbatim>\<open>str.lower\<close>, \<^verbatim>\<open>str.upper\<close> and \<^verbatim>\<open>str.title\<close> consult the character database of
  the Python runtime, which is not part of the program: they are a parameter of every
  function that calls them, so that what is proved holds whatever that database says.
  Logging, sleeping and the random choice of a user agent do not influence any returned
  value and are left out.
\<close>

subsection \<open>Strings and the Python operations on them\<close>

type_synonym ustring = "int list"

definition asc :: "string \<Rightarrow> ustring" where
  "asc s = map of_char s"

text \<open>\<^verbatim>\<open>s.lower()\<close>, \<^verbatim>\<open>s.upper()\<close> and \<^verbatim>\<open>s.title()\<close> of the runtime.\<close>

record casing =
  str_lower :: "ustring \<Rightarrow> ustring"
  str_upper :: "ustring \<Rightarrow> ustring"
  str_title :: "ustring \<Rightarrow> ustring"

text \<open>\<^verbatim>\<open>v in s\<close> on strings.\<close>

fun py_in :: "ustring \<Rightarrow> ustring \<Rightarrow> bool" where
  "py_in v [] = (v = [])"
| "py_in v (c # s) = (prefix v (c # s) \<or> py_in v s)"

text \<open>\<^verbatim>\<open>s.find(v)\<close>: the lowest index where \<open>v\<close> starts in \<open>s\<close>, or \<open>-1\<close>.\<close>

fun py_find :: "ustring \<Rightarrow> ustring \<Rightarrow> int" where
  "py_find [] v = (if v = [] then 0 else - 1)"
| "py_find (c # s) v =
     (if prefix v (c # s) then 0
      else (let i = py_find s v in if i = - 1 then - 1 else i + 1))"

text \<open>\<^verbatim>\<open>s[a:b]\<close>: a negative index counts from the end, every index is clipped to the string.\<close>

definition clip_index :: "nat \<Rightarrow> int \<Rightarrow> nat" where
  "clip_index n i = (if i < 0 then nat (max 0 (int n + i)) else min n (nat i))"

definition py_slice :: "ustring \<Rightarrow> int \<Rightarrow> int \<Rightarrow> ustring" where
  "py_slice s a b =
     (let lo = clip_index (length s) a; hi = clip_index (length s) b
      in take (hi - lo) (drop lo s))"

text \<open>
  The characters that \<^verbatim>\<open>split()\<close> and \<^verbatim>\<open>strip()\<close> without argument treat as blank, that
  is, those for which \<^verbatim>\<open>str.isspace\<close> holds: the ASCII controls 9 to 13 and 28 to 31,
  the space, NEL (133), the no-break space (160), and the Unicode spaces and separators
  beyond Latin-1.
\<close>

definition py_isspace :: "int \<Rightarrow> bool" where
  "py_isspace c =
     (c \<in> {9, 10, 11, 12, 13, 28, 29, 30, 31, 32, 133, 160, 5760,
           8232, 8233, 8239, 8287, 12288}
      \<or> (8192 \<le> c \<and> c \<le> 8202))"

text \<open>\<^verbatim>\<open>s.split()\<close> without argument: the maximal runs of non-blank characters.\<close>

fun split_from :: "ustring \<Rightarrow> ustring \<Rightarrow> ustring list" where
  "split_from w [] = (if w = [] then [] else [w])"
| "split_from w (c # s) =
     (if py_isspace c then (if w = [] then split_from [] s else w # split_from [] s)
      else split_from (w @ [c]) s)"

definition py_split :: "ustring \<Rightarrow> ustring list" where
  "py_split s = split_from [] s"

text \<open>\<^verbatim>\<open>sep.join(ws)\<close>.\<close>

fun py_join :: "ustring \<Rightarrow> ustring list \<Rightarrow> ustring" where
  "py_join sep [] = []"
| "py_join sep [w] = w"
| "py_join sep (w # ws) = w @ sep @ py_join sep ws"

text \<open>\<^verbatim>\<open>s.strip()\<close> and \<^verbatim>\<open>s.rstrip('/')\<close>.\<close>

definition py_strip :: "ustring \<Rightarrow> ustring" where
  "py_strip s = rev (dropWhile py_isspace (rev (dropWhile py_isspace s)))"

definition py_rstrip :: "int \<Rightarrow> ustring \<Rightarrow> ustring" where
  "py_rstrip d s = rev (dropWhile (\<lambda>c. c = d) (rev s))"

text \<open>
  \<^verbatim>\<open>s.split(d)\<close> for a one-character separator: never empty, so that \<^verbatim>\<open>[0]\<close> is
  always defined.
\<close>

fun py_split_on :: "int \<Rightarrow> ustring \<Rightarrow> ustring list" where
  "py_split_on d [] = [] # []"
| "py_split_on d (c # s) =
     (if c = d then [] # py_split_on d s
      else (case py_split_on d s of
              [] \<Rightarrow> [c] # []
            | w # ws \<Rightarrow> (c # w) # ws))"

text \<open>
  \<^verbatim>\<open>s.replace(old, new)\<close> for a non-empty \<open>old\<close>: the occurrences are replaced from the
  left and do not overlap. The counter is the number of characters of a matched
  occurrence still to be skipped.
\<close>

fun replace_from :: "nat \<Rightarrow> ustring \<Rightarrow> ustring \<Rightarrow> ustring \<Rightarrow> ustring" where
  "replace_from k old new [] = []"
| "replace_from (Suc k) old new (c # s) = replace_from k old new s"
| "replace_from 0 old new (c # s) =
     (if old \<noteq> [] \<and> prefix old (c # s) then new @ replace_from (length old - 1) old new s
      else c # replace_from 0 old new s)"

definition py_replace :: "ustring \<Rightarrow> ustring \<Rightarrow> ustring \<Rightarrow> ustring" where
  "py_replace s old new = replace_from 0 old new s"

text \<open>
  \<^verbatim>\<open>re.sub(r'<[^>]+>', ' ', s)\<close>: a \<open><\<close> (60), at least one character other than \<open>>\<close>
  (62), and the next \<open>>\<close> become one blank. The counter skips the rest of a matched tag.
\<close>

definition tag_length :: "ustring \<Rightarrow> nat option" where
  "tag_length s =
     (let body = takeWhile (\<lambda>x. x \<noteq> 62) s; rest = dropWhile (\<lambda>x. x \<noteq> 62) s
      in if body \<noteq> [] \<and> rest \<noteq> [] then Some (length body + 1) else None)"

fun strip_tags_from :: "nat \<Rightarrow> ustring \<Rightarrow> ustring" where
  "strip_tags_from k [] = []"
| "strip_tags_from (Suc k) (c # s) = strip_tags_from k s"
| "strip_tags_from 0 (c # s) =
     (if c = 60 then
        (case tag_length s of
           Some n \<Rightarrow> 32 # strip_tags_from n s
         | None \<Rightarrow> c # strip_tags_from 0 s)
      else c # strip_tags_from 0 s)"

definition re_sub_tags :: "ustring \<Rightarrow> ustring" where
  "re_sub_tags s = strip_tags_from 0 s"

text \<open>\<^verbatim>\<open>list(dict.fromkeys(xs))\<close>: the first occurrence of every element, in order.\<close>

fun fromkeys :: "ustring list \<Rightarrow> ustring list \<Rightarrow> ustring list" where
  "fromkeys seen [] = []"
| "fromkeys seen (x # xs) =
     (if x \<in> set seen then fromkeys seen xs else x # fromkeys (x # seen) xs)"

subsection \<open>The variations of the search term (\<^verbatim>\<open>verify_backlink\<close>, lines 311--386)\<close>

text \<open>The separators are the code points of \<^verbatim>\<open>/\<close> (47) and \<^verbatim>\<open>.\<close> (46).\<close>

definition url_variations :: "casing \<Rightarrow> ustring \<Rightarrow> ustring \<Rightarrow> ustring list" where
  "url_variations cm search_term base_term =
     (let clean_url =
            py_rstrip 47
              (py_replace
                 (py_replace (py_replace base_term (asc ''https://'') []) (asc ''http://'') [])
                 (asc ''www.'') []);
          domain_parts = py_split_on 46 (hd (py_split_on 47 clean_url));
          brand_name = hd domain_parts;
          base_domain = hd (py_split_on 47 clean_url)
      in [base_term, str_upper cm search_term, str_title cm search_term,
          clean_url, asc ''www.'' @ clean_url,
          asc ''https://'' @ clean_url, asc ''http://'' @ clean_url,
          asc ''https://www.'' @ clean_url, asc ''http://www.'' @ clean_url,
          clean_url @ asc ''/'', asc ''www.'' @ clean_url @ asc ''/'',
          asc ''https://'' @ clean_url @ asc ''/'', asc ''http://'' @ clean_url @ asc ''/'',
          asc ''https://www.'' @ clean_url @ asc ''/'',
          asc ''http://www.'' @ clean_url @ asc ''/'']
         @ (if py_in (asc ''.'') clean_url \<and> 2 \<le> length domain_parts
            then [brand_name, str_upper cm brand_name, str_title cm brand_name] else [])
         @ [base_domain, asc ''www.'' @ base_domain,
            asc ''https://'' @ base_domain, asc ''https://www.'' @ base_domain])"

definition text_variations :: "casing \<Rightarrow> ustring \<Rightarrow> ustring list" where
  "text_variations cm base_term =
     [base_term @ asc ''.com'', asc ''www.'' @ base_term @ asc ''.com'',
      asc ''https://'' @ base_term @ asc ''.com'',
      asc ''https://www.'' @ base_term @ asc ''.com'',
      asc ''http://'' @ base_term @ asc ''.com'',
      asc ''http://www.'' @ base_term @ asc ''.com'',
      str_upper cm base_term, str_title cm base_term]"

definition search_variations :: "casing \<Rightarrow> ustring \<Rightarrow> bool \<Rightarrow> ustring list" where
  "search_variations cm search_term case_sensitive =
     (if case_sensitive then [search_term]
      else (let base_term = str_lower cm search_term
            in fromkeys []
                 (base_term #
                  (if list_ex (\<lambda>indicator. py_in indicator base_term)
                        [asc ''http'', asc ''www.'', asc ''.com'', asc ''.in'',
                         asc ''.org'', asc ''.net'']
                   then url_variations cm search_term base_term
                   else text_variations cm base_term))))"

subsection \<open>The result of a fetch and the result of a verification\<close>

text \<open>
  \<^verbatim>\<open>fetch_page_content\<close> returns a dictionary of one of two shapes. A success carries
  \<^verbatim>\<open>text_content\<close>, \<^verbatim>\<open>html_content\<close>, \<^verbatim>\<open>status_code\<close>, \<^verbatim>\<open>url\<close> and, on the
  403 path only, \<^verbatim>\<open>warning\<close>; a failure carries \<^verbatim>\<open>error\<close>, \<^verbatim>\<open>status_code\<close> (possibly
  \<^verbatim>\<open>None\<close>) and \<^verbatim>\<open>url\<close>.
\<close>

datatype fetch_result =
    Fetched ustring ustring int ustring "ustring option"
  | Failed ustring "int option" ustring

fun success :: "fetch_result \<Rightarrow> bool" where
  "success (Fetched text_content html_content status final_url warn) = True"
| "success (Failed err status final_url) = False"

text \<open>The pydantic model \<^verbatim>\<open>BacklinkResult\<close>.\<close>

record backlink_result =
  r_url :: ustring
  r_search_term :: ustring
  verified :: bool
  error :: "ustring option"
  status_code :: "int option"
  found_in :: "ustring option"
  r_context :: "ustring option"
  found_variation :: "ustring option"
  warning :: "ustring option"

text \<open>The four local variables that the search steps of \<^verbatim>\<open>verify_backlink\<close> update.\<close>

record scan_state =
  found_in_text :: bool
  found_in_html :: bool
  s_context :: "ustring option"
  s_variation :: "ustring option"

definition scan_init :: scan_state where
  "scan_init = \<lparr>found_in_text = False, found_in_html = False,
                 s_context = None, s_variation = None\<rparr>"

subsection \<open>The search steps (\<^verbatim>\<open>verify_backlink\<close>, lines 399--489)\<close>

text \<open>Lines 411--426: the context around a variation found in the page text.\<close>

definition text_context :: "casing \<Rightarrow> ustring \<Rightarrow> ustring \<Rightarrow> ustring option" where
  "text_context cm text_content variation =
     (let index = py_find text_content variation
      in if index \<noteq> - 1 then
           (let start = max 0 (index - 200);
                end = min (int (length text_content)) (index + int (length variation) + 200);
                raw_context = py_slice text_content start end;
                ctx = py_join (asc '' '') (py_split raw_context)
            in if 50 < length ctx then
                 (let term_pos = py_find (str_lower cm ctx) (str_lower cm variation)
                  in if 150 < term_pos
                     then Some (asc ''...'' @ py_slice ctx (term_pos - 100) (term_pos + 200)
                                @ asc ''...'')
                     else Some ctx)
               else Some ctx)
         else None)"

text \<open>Lines 405--427: the first variation that occurs in the page text wins.\<close>

fun text_scan :: "casing \<Rightarrow> ustring list \<Rightarrow> ustring \<Rightarrow> (ustring \<times> ustring option) option" where
  "text_scan cm [] text_content = None"
| "text_scan cm (variation # vs) text_content =
     (if py_in variation text_content
      then Some (variation, text_context cm text_content variation)
      else text_scan cm vs text_content)"

text \<open>Lines 437--453: the context around a variation found in the markup.\<close>

definition html_context_of :: "ustring \<Rightarrow> ustring \<Rightarrow> ustring" where
  "html_context_of html_content variation =
     (let index = py_find html_content variation
      in if index \<noteq> - 1 then
           (let start = max 0 (index - 150);
                end = min (int (length html_content)) (index + int (length variation) + 150);
                html_context = py_slice html_content start end;
                clean_context = py_join (asc '' '') (py_split (re_sub_tags html_context))
            in if py_strip clean_context \<noteq> [] then asc ''HTML: '' @ clean_context
               else asc ''Found in HTML source code'')
         else asc ''Found in HTML attributes or tags'')"

text \<open>Lines 431--454.\<close>

fun html_scan :: "ustring list \<Rightarrow> ustring \<Rightarrow> (ustring \<times> ustring) option" where
  "html_scan [] html_content = None"
| "html_scan (variation # vs) html_content =
     (if py_in variation html_content
      then Some (variation, html_context_of html_content variation)
      else html_scan vs html_content)"

text \<open>Lines 470--475: the first variation that occurs in the lower-cased final URL.\<close>

fun url_scan :: "ustring list \<Rightarrow> ustring \<Rightarrow> ustring option" where
  "url_scan [] current_url = None"
| "url_scan (variation # vs) current_url =
     (if py_in variation current_url then Some variation else url_scan vs current_url)"

text \<open>
  Lines 480--482: the domain looked for among the links. The protocol and \<^verbatim>\<open>www.\<close>
  are removed, and the path cut off, only under the guard \<^verbatim>\<open>'http' in search_domain\<close>.
\<close>

definition search_domain_of :: "casing \<Rightarrow> ustring \<Rightarrow> ustring" where
  "search_domain_of cm search_term =
     (let search_domain = str_lower cm search_term
      in if py_in (asc ''http'') search_domain
         then hd (py_split_on 47
                    (py_replace
                       (py_replace (py_replace search_domain (asc ''https://'') [])
                          (asc ''http://'') [])
                       (asc ''www.'') []))
         else search_domain)"

text \<open>Line 486: the test of the last step, on the first dot-separated label.\<close>

definition domain_label :: "casing \<Rightarrow> ustring \<Rightarrow> ustring" where
  "domain_label cm search_term = hd (py_split_on 46 (search_domain_of cm search_term))"

definition domain_in_links :: "casing \<Rightarrow> ustring \<Rightarrow> ustring \<Rightarrow> bool" where
  "domain_in_links cm search_term html_content =
     (py_in (domain_label cm search_term) html_content
      \<and> 3 < length (domain_label cm search_term))"

text \<open>The four steps in the order of the source, each guarded as there.\<close>

definition step_text :: "casing \<Rightarrow> ustring list \<Rightarrow> ustring \<Rightarrow> scan_state" where
  "step_text cm vs text_content =
     (case text_scan cm vs text_content of
        None \<Rightarrow> scan_init
      | Some (variation, ctx) \<Rightarrow>
          scan_init\<lparr>found_in_text := True, s_variation := Some variation, s_context := ctx\<rparr>)"

definition step_html :: "ustring list \<Rightarrow> ustring \<Rightarrow> bool \<Rightarrow> scan_state \<Rightarrow> scan_state" where
  "step_html vs html_content search_in_html st =
     (if \<not> found_in_text st \<and> search_in_html then
        (case html_scan vs html_content of
           None \<Rightarrow> st
         | Some (variation, ctx) \<Rightarrow>
             st\<lparr>found_in_html := True, s_variation := Some variation, s_context := Some ctx\<rparr>)
      else st)"

definition step_url :: "casing \<Rightarrow> ustring list \<Rightarrow> ustring \<Rightarrow> scan_state \<Rightarrow> scan_state" where
  "step_url cm vs final_url st =
     (if \<not> found_in_text st \<and> \<not> found_in_html st then
        (let current_url = str_lower cm final_url
         in case url_scan vs current_url of
              None \<Rightarrow> st
            | Some variation \<Rightarrow>
                st\<lparr>found_in_html := True, s_variation := Some variation,
                   s_context := Some (asc ''Found in page URL: '' @ current_url)\<rparr>)
      else st)"

definition step_domain :: "casing \<Rightarrow> ustring \<Rightarrow> ustring \<Rightarrow> bool \<Rightarrow> scan_state \<Rightarrow> scan_state" where
  "step_domain cm search_term html_content search_in_html st =
     (if \<not> found_in_text st \<and> \<not> found_in_html st \<and> search_in_html then
        (if domain_in_links cm search_term html_content
         then st\<lparr>found_in_html := True,
                 s_variation := Some (search_domain_of cm search_term),
                 s_context := Some (asc ''Domain found in page links'')\<rparr>
         else st)
      else st)"

definition run_steps ::
    "casing \<Rightarrow> ustring \<Rightarrow> ustring \<Rightarrow> ustring \<Rightarrow> ustring \<Rightarrow> bool \<Rightarrow> bool \<Rightarrow> scan_state" where
  "run_steps cm text_content html_content final_url search_term search_in_html case_sensitive =
     (let vs = search_variations cm search_term case_sensitive
      in step_domain cm search_term html_content search_in_html
           (step_url cm vs final_url
              (step_html vs html_content search_in_html
                 (step_text cm vs text_content))))"

text \<open>Line 501: \<^verbatim>\<open>context[:500] if context else None\<close>; an empty context is dropped.\<close>

definition limit_context :: "ustring option \<Rightarrow> ustring option" where
  "limit_context ctx =
     (case ctx of None \<Rightarrow> None | Some c \<Rightarrow> if c = [] then None else Some (take 500 c))"

text \<open>
  \<^verbatim>\<open>verify_backlink\<close> from line 300 on, that is, once \<^verbatim>\<open>fetch_page_content\<close> has
  returned \<open>result\<close>: the specification's operation \<^verbatim>\<open>match\<close>.
\<close>

definition match_backlink ::
    "casing \<Rightarrow> fetch_result \<Rightarrow> ustring \<Rightarrow> ustring \<Rightarrow> bool \<Rightarrow> bool \<Rightarrow> backlink_result" where
  "match_backlink cm result page_url search_term search_in_html case_sensitive =
     (case result of
        Failed err status final_url \<Rightarrow>
          \<lparr>r_url = page_url, r_search_term = search_term, verified = False,
           error = Some err, status_code = status, found_in = None, r_context = None,
           found_variation = None, warning = None\<rparr>
      | Fetched text_content html_content status final_url warn \<Rightarrow>
          (let st = run_steps cm text_content html_content final_url search_term
                      search_in_html case_sensitive
           in \<lparr>r_url = page_url, r_search_term = search_term,
               verified = (found_in_text st \<or> found_in_html st),
               error = None, status_code = Some status,
               found_in = (if found_in_text st then Some (asc ''Page Text'')
                           else if found_in_html st then Some (asc ''HTML/Links'') else None),
               r_context = limit_context (s_context st),
               found_variation = s_variation st, warning = warn\<rparr>))"

text \<open>The fields of a fetch result that \<^verbatim>\<open>verify_backlink\<close> reads on the failure path.\<close>

fun fetch_error :: "fetch_result \<Rightarrow> ustring option" where
  "fetch_error (Fetched text_content html_content status final_url warn) = None"
| "fetch_error (Failed err status final_url) = Some err"

fun fetch_status :: "fetch_result \<Rightarrow> int option" where
  "fetch_status (Fetched text_content html_content status final_url warn) = Some status"
| "fetch_status (Failed err status final_url) = status"

subsection \<open>The page fetcher (\<^verbatim>\<open>fetch_page_content\<close>, lines 177--295)\<close>

text \<open>
  What \<^verbatim>\<open>session.get\<close> hands back, as far as the code reads it. \<open>resp_content\<close> is the
  body, a sequence of bytes. \<open>resp_text\<close> is \<^verbatim>\<open>response.text\<close> under the apparent
  encoding, \<open>None\<close> when computing it raises (the 403 branch swallows that with a bare
  \<^verbatim>\<open>except\<close>). \<open>resp_parsed\<close> is the outcome of parsing the body with BeautifulSoup and
  dropping \<^verbatim>\<open>script\<close> and \<^verbatim>\<open>style\<close>: the pair of
  \<^verbatim>\<open>soup.get_text(separator=' ', strip=True)\<close> and \<^verbatim>\<open>str(soup)\<close>, or the message of
  the exception raised on the way. \<open>resp_http_error\<close> is the message of the
  \<^verbatim>\<open>HTTPError\<close> that \<^verbatim>\<open>raise_for_status\<close> builds for this response.
\<close>

record response =
  resp_status :: int
  resp_content :: "int list"
  resp_text :: "ustring option"
  resp_url :: ustring
  resp_parsed :: "ustring + ustring \<times> ustring"
  resp_http_error :: ustring

text \<open>
  One pass through the \<^verbatim>\<open>try\<close> block: a response, \<^verbatim>\<open>requests.exceptions.Timeout\<close>,
  another \<^verbatim>\<open>RequestException\<close> (with \<^verbatim>\<open>str(e)\<close> and the value of the status
  expression of line 286), or an exception outside that hierarchy, which no handler of
  \<^verbatim>\<open>fetch_page_content\<close> catches.
\<close>

datatype attempt =
    Response response
  | Timeout
  | RequestException ustring "int option"
  | OtherException ustring

record verifier =
  vb_timeout :: int
  vb_use_browser :: bool

text \<open>\<^verbatim>\<open>str(n)\<close> for an integer; 48 is the digit zero, 45 the minus sign.\<close>

fun digits :: "nat \<Rightarrow> ustring" where
  "digits n =
     (if n < 10 then [48 + int n] else digits (n div 10) @ [48 + int (n mod 10)])"

definition py_str_int :: "int \<Rightarrow> ustring" where
  "py_str_int i = (if i < 0 then 45 # digits (nat (- i)) else digits (nat i))"

definition normalize_url :: "ustring \<Rightarrow> ustring" where
  "normalize_url u =
     (if prefix (asc ''http://'') u \<or> prefix (asc ''https://'') u then u
      else asc ''https://'' @ u)"

text \<open>
  Lines 216--230: the content of a 403 response that is good enough to be searched, if
  any. The length compared with 100 is that of the lower-cased text.
\<close>

definition forbidden_content :: "casing \<Rightarrow> response \<Rightarrow> ustring option" where
  "forbidden_content cm r =
     (if resp_content r \<noteq> [] then
        (case resp_text r of
           None \<Rightarrow> None
         | Some t \<Rightarrow>
             (let content_text = str_lower cm t
              in if 100 < length content_text then Some content_text else None))
      else None)"

text \<open>
  Lines 215--269: what one response leads to. \<open>None\<close> stands for \<^verbatim>\<open>continue\<close>;
  \<open>Inl\<close> is an exception that leaves \<^verbatim>\<open>fetch_page_content\<close>. \<open>retry\<close> is the test
  \<^verbatim>\<open>attempt < max_retries - 1\<close>. A status from 400 to 599 makes \<^verbatim>\<open>raise_for_status\<close>
  raise an \<^verbatim>\<open>HTTPError\<close>, which the handler of line 280 receives; its response is falsy,
  so the status recorded there is \<^verbatim>\<open>None\<close>.
\<close>

definition handle_response ::
    "casing \<Rightarrow> ustring \<Rightarrow> bool \<Rightarrow> response \<Rightarrow> (ustring + fetch_result) option" where
  "handle_response cm u retry r =
     (if resp_status r = 403 then
        (case forbidden_content cm r of
           Some content_text \<Rightarrow>
             Some (Inr (Fetched content_text content_text 403 (resp_url r)
                          (Some (asc ''403 Forbidden but content was accessible''))))
         | None \<Rightarrow>
             if retry then None
             else Some (Inr (Failed (asc ''403 Forbidden - Access denied'') (Some 403) u)))
      else if resp_status r = 429 then
        (if retry then None
         else Some (Inr (Failed (asc ''429 Too Many Requests - Rate limited'') (Some 429) u)))
      else if 400 \<le> resp_status r \<and> resp_status r < 600 then
        (if retry then None else Some (Inr (Failed (resp_http_error r) None u)))
      else
        (case resp_parsed r of
           Inl msg \<Rightarrow> Some (Inl msg)
         | Inr (text_content, html_content) \<Rightarrow>
             Some (Inr (Fetched (str_lower cm text_content) (str_lower cm html_content)
                          (resp_status r) (resp_url r) None))))"

definition handle_attempt ::
    "casing \<Rightarrow> verifier \<Rightarrow> ustring \<Rightarrow> bool \<Rightarrow> attempt \<Rightarrow> (ustring + fetch_result) option" where
  "handle_attempt cm self u retry a =
     (case a of
        Response r \<Rightarrow> handle_response cm u retry r
      | Timeout \<Rightarrow>
          if retry then None
          else Some (Inr (Failed (asc ''Request timeout after '' @ py_str_int (vb_timeout self)
                                    @ asc '' seconds'') None u))
      | RequestException msg status \<Rightarrow>
          if retry then None else Some (Inr (Failed msg status u))
      | OtherException msg \<Rightarrow> Some (Inl msg))"

text \<open>
  The loop \<^verbatim>\<open>for attempt in range(max_retries)\<close>; the last argument counts the passes
  that are left. \<open>env\<close> gives the outcome of the request of each pass.
\<close>

fun fetch_attempts ::
    "casing \<Rightarrow> verifier \<Rightarrow> (nat \<Rightarrow> attempt) \<Rightarrow> ustring \<Rightarrow> int \<Rightarrow> nat \<Rightarrow> nat
       \<Rightarrow> ustring + fetch_result" where
  "fetch_attempts cm self env u max_retries attempt 0 =
     Inr (Failed (asc ''Failed after '' @ py_str_int max_retries @ asc '' attempts'') None u)"
| "fetch_attempts cm self env u max_retries attempt (Suc remaining) =
     (case handle_attempt cm self u (int attempt < max_retries - 1) (env attempt) of
        Some outcome \<Rightarrow> outcome
      | None \<Rightarrow> fetch_attempts cm self env u max_retries (Suc attempt) remaining)"

definition fetch_page_content ::
    "casing \<Rightarrow> verifier \<Rightarrow> (nat \<Rightarrow> attempt) \<Rightarrow> ustring \<Rightarrow> int \<Rightarrow> ustring + fetch_result" where
  "fetch_page_content cm self env u max_retries =
     fetch_attempts cm self env (normalize_url u) max_retries 0 (nat max_retries)"

subsection \<open>\<^verbatim>\<open>verify_backlink\<close> and \<^verbatim>\<open>verify_multiple_backlinks\<close>\<close>

text \<open>Lines 297--504; \<open>Inl\<close> is an exception that leaves the method.\<close>

definition verify_backlink ::
    "casing \<Rightarrow> verifier \<Rightarrow> (nat \<Rightarrow> attempt) \<Rightarrow> ustring \<Rightarrow> ustring \<Rightarrow> bool \<Rightarrow> bool
       \<Rightarrow> ustring + backlink_result" where
  "verify_backlink cm self env u search_term search_in_html case_sensitive =
     (case fetch_page_content cm self env u 3 of
        Inl msg \<Rightarrow> Inl msg
      | Inr result \<Rightarrow>
          Inr (match_backlink cm result u search_term search_in_html case_sensitive))"

text \<open>Lines 713--725 and 738--751: the \<^verbatim>\<open>try\<close> around one URL.\<close>

definition processing_error :: "ustring \<Rightarrow> ustring \<Rightarrow> ustring \<Rightarrow> backlink_result" where
  "processing_error u search_term msg =
     \<lparr>r_url = u, r_search_term = search_term, verified = False,
      error = Some (asc ''Processing error: '' @ msg), status_code = None, found_in = None,
      r_context = None, found_variation = None, warning = None\<rparr>"

definition guarded_verify ::
    "casing \<Rightarrow> verifier \<Rightarrow> (nat \<Rightarrow> attempt) \<Rightarrow> ustring \<Rightarrow> ustring \<Rightarrow> bool \<Rightarrow> bool
       \<Rightarrow> backlink_result" where
  "guarded_verify cm self env u search_term search_in_html case_sensitive =
     (case verify_backlink cm self env (py_strip u) search_term search_in_html case_sensitive of
        Inl msg \<Rightarrow> processing_error (py_strip u) search_term msg
      | Inr r \<Rightarrow> r)"

text \<open>
  \<open>world i\<close> is the network as the \<open>i\<close>-th submitted URL meets it. The pool runs the
  operations independently; \<^verbatim>\<open>as_completed\<close> yields every submitted future once, in
  the order \<open>order\<close> in which they finish, a permutation of their indices.
\<close>

definition submitted :: "ustring list \<Rightarrow> (nat \<times> ustring) list" where
  "submitted urls = enumerate 0 (filter (\<lambda>u. py_strip u \<noteq> []) urls)"

definition as_completed :: "nat list \<Rightarrow> 'a list \<Rightarrow> 'a list" where
  "as_completed order futures = map (\<lambda>i. futures ! i) order"

text \<open>
  The message of the \<^verbatim>\<open>AttributeError\<close> raised by line 698: the method
  \<^verbatim>\<open>init_browser\<close> is commented out in the class. 39 is the apostrophe.
\<close>

definition no_init_browser :: ustring where
  "no_init_browser =
     [39] @ asc ''BacklinksVerifier'' @ [39] @ asc '' object has no attribute ''
     @ [39] @ asc ''init_browser'' @ [39]"

text \<open>
  Lines 694--761. \<^verbatim>\<open>ThreadPoolExecutor\<close> rejects a pool size below one with
  \<^verbatim>\<open>ValueError\<close>.
\<close>

definition verify_multiple_backlinks ::
    "casing \<Rightarrow> verifier \<Rightarrow> (nat \<Rightarrow> nat \<Rightarrow> attempt) \<Rightarrow> nat list \<Rightarrow> ustring list \<Rightarrow> ustring
       \<Rightarrow> bool \<Rightarrow> bool \<Rightarrow> int \<Rightarrow> bool \<Rightarrow> ustring + backlink_result list" where
  "verify_multiple_backlinks cm self world order urls search_term search_in_html
       case_sensitive max_workers use_browser =
     (if use_browser \<and> \<not> vb_use_browser self then Inl no_init_browser
      else
        (let workers = min (if vb_use_browser self then 1 else max_workers) 3;
             run = (\<lambda>(i, u). guarded_verify cm self (world i) u search_term
                                search_in_html case_sensitive)
         in if workers = 1 then Inr (map run (submitted urls))
            else if workers \<le> 0 then Inl (asc ''max_workers must be greater than 0'')
            else Inr (map run (as_completed order (submitted urls)))))"

subsection \<open>The summary (\<^verbatim>\<open>process_backlinks\<close>, lines 781--790; \<^verbatim>\<open>verify_backlinks_sync\<close>, 869--878)\<close>

text \<open>
  \<^verbatim>\<open>success_rate\<close> is computed on Python floats, that is, on IEEE 754 double precision
  numbers. A finite double is a rational number, and every operation returns the double
  nearest to the exact result, a tie going to the even significand. \<open>binary64\<close> is that
  rounding (53 significant bits, least exponent \<open>-1074\<close>); the values of this
  computation lie between 0 and 100, far from overflow.
\<close>

fun bit_length :: "nat \<Rightarrow> nat" where
  "bit_length n = (if n = 0 then 0 else Suc (bit_length (n div 2)))"

definition floor_log2 :: "rat \<Rightarrow> int" where
  "floor_log2 q =
     (if 1 \<le> q then int (bit_length (nat \<lfloor>q\<rfloor>)) - 1
      else - int (bit_length (nat (\<lceil>1 / q\<rceil> - 1))))"

definition pow2 :: "int \<Rightarrow> rat" where
  "pow2 e = (if 0 \<le> e then 2 ^ nat e else 1 / 2 ^ nat (- e))"

definition round_half_even :: "rat \<Rightarrow> int" where
  "round_half_even q =
     (let f = \<lfloor>q\<rfloor>; r = q - of_int f
      in if 1 / 2 < r \<or> (r = 1 / 2 \<and> odd f) then f + 1 else f)"

definition binary64 :: "rat \<Rightarrow> rat" where
  "binary64 q =
     (if q = 0 then 0
      else (let e = max (floor_log2 \<bar>q\<bar> - 52) (- 1074)
            in sgn q * of_int (round_half_even (\<bar>q\<bar> / pow2 e)) * pow2 e))"

text \<open>\<^verbatim>\<open>a / b\<close> on integers, \<^verbatim>\<open>x * y\<close> on floats, and \<^verbatim>\<open>round(x, 1)\<close>, which rounds
  the exact value of \<open>x\<close> to one decimal, a tie going to the even digit, and returns the
  double nearest to that decimal.\<close>

definition true_div :: "nat \<Rightarrow> nat \<Rightarrow> rat" where
  "true_div a b = binary64 (of_nat a / of_nat b)"

definition float_mul :: "rat \<Rightarrow> rat \<Rightarrow> rat" where
  "float_mul x y = binary64 (x * y)"

definition py_round1 :: "rat \<Rightarrow> rat" where
  "py_round1 x = binary64 (of_int (round_half_even (x * 10)) / 10)"

text \<open>The truth value of an \<^verbatim>\<open>Optional[str]\<close>: \<^verbatim>\<open>None\<close> and the empty string are false.\<close>

definition truthy :: "ustring option \<Rightarrow> bool" where
  "truthy e = (case e of None \<Rightarrow> False | Some s \<Rightarrow> s \<noteq> [])"

record summary =
  total_urls :: nat
  verified_count :: nat
  error_count :: nat
  success_rate :: rat

definition summary_of :: "backlink_result list \<Rightarrow> summary" where
  "summary_of results =
     (let n_verified = sum_list (map (\<lambda>r. 1) (filter verified results));
          n_error = sum_list (map (\<lambda>r. 1) (filter (\<lambda>r. truthy (error r)) results));
          total_count = length results
      in \<lparr>total_urls = total_count, verified_count = n_verified, error_count = n_error,
          success_rate = (if 0 < total_count
                          then py_round1 (float_mul (true_div n_verified total_count) 100)
                          else 0)\<rparr>)"

text \<open>
  The rate as the specification writes it, \<^verbatim>\<open>round(100 * verifiedCount / totalCount, 1)\<close>,
  in the same arithmetic: the product is an exact integer and only the quotient is
  rounded.
\<close>

definition spec_success_rate :: "nat \<Rightarrow> nat \<Rightarrow> rat" where
  "spec_success_rate n_verified total_count =
     (if total_count = 0 then 0 else py_round1 (true_div (100 * n_verified) total_count))"

subsection \<open>The case operations on a part of Unicode\<close>

text \<open>
  For the concrete pages below the case operations are needed as functions. \<open>latin_case\<close>
  gives them as the character database of Python 3 has them on the code points up to 255
  (ASCII and Latin-1), on U+0130 (capital I with dot, whose lower case is two characters)
  and on U+2102 (double-struck capital C, an upper-case letter without a lower-case
  form); a code point outside this range is left as it is. \<open>cased_cp\<close> is the property
  \<^verbatim>\<open>title\<close> looks at in the preceding character.
\<close>

definition lower_cp :: "int \<Rightarrow> ustring" where
  "lower_cp c =
     (if (65 \<le> c \<and> c \<le> 90) \<or> (192 \<le> c \<and> c \<le> 214) \<or> (216 \<le> c \<and> c \<le> 222) then [c + 32]
      else if c = 304 then [105, 775]
      else [c])"

definition upper_cp :: "int \<Rightarrow> ustring" where
  "upper_cp c =
     (if (97 \<le> c \<and> c \<le> 122) \<or> (224 \<le> c \<and> c \<le> 246) \<or> (248 \<le> c \<and> c \<le> 254) then [c - 32]
      else if c = 181 then [924]
      else if c = 223 then [83, 83]
      else if c = 255 then [376]
      else [c])"

definition title_cp :: "int \<Rightarrow> ustring" where
  "title_cp c = (if c = 223 then [83, 115] else upper_cp c)"

definition cased_cp :: "int \<Rightarrow> bool" where
  "cased_cp c =
     ((65 \<le> c \<and> c \<le> 90) \<or> (97 \<le> c \<and> c \<le> 122) \<or> c = 170 \<or> c = 181 \<or> c = 186
      \<or> (192 \<le> c \<and> c \<le> 214) \<or> (216 \<le> c \<and> c \<le> 246) \<or> (248 \<le> c \<and> c \<le> 255)
      \<or> c = 304 \<or> c = 8450)"

text \<open>\<^verbatim>\<open>c.isupper()\<close> on these code points: the capital letters.\<close>

definition isupper_cp :: "int \<Rightarrow> bool" where
  "isupper_cp c =
     ((65 \<le> c \<and> c \<le> 90) \<or> (192 \<le> c \<and> c \<le> 214) \<or> (216 \<le> c \<and> c \<le> 222)
      \<or> c = 304 \<or> c = 8450)"

definition latin_lower :: "ustring \<Rightarrow> ustring" where
  "latin_lower s = concat (map lower_cp s)"

definition latin_upper :: "ustring \<Rightarrow> ustring" where
  "latin_upper s = concat (map upper_cp s)"

text \<open>
  \<^verbatim>\<open>str.title()\<close>: a character that follows a cased one is lower-cased, any other is
  title-cased. The flag is Python's \<^verbatim>\<open>previous_is_cased\<close>.
\<close>

fun title_from :: "bool \<Rightarrow> ustring \<Rightarrow> ustring" where
  "title_from prev [] = []"
| "title_from prev (c # s) =
     (if prev then lower_cp c else title_cp c) @ title_from (cased_cp c) s"

definition latin_title :: "ustring \<Rightarrow> ustring" where
  "latin_title s = title_from False s"

definition latin_case :: casing where
  "latin_case = \<lparr>str_lower = latin_lower, str_upper = latin_upper, str_title = latin_title\<rparr>"

subsection \<open>Example pages, responses and results\<close>

text \<open>A page that links to a partner only inside an anchor.\<close>

definition partner_page :: fetch_result where
  "partner_page =
     Fetched (asc ''our partners'') (asc ''<a href=https://acmewidgets.io/partner>partner</a>'')
       200 (asc ''https://site.test/links'') None"

text \<open>A page whose text mentions the domain with its \<^verbatim>\<open>www.\<close> prefix.\<close>

definition visit_page :: fetch_result where
  "visit_page =
     Fetched (asc ''visit www.example.com today'') (asc ''<p>visit www.example.com today</p>'')
       200 (asc ''https://site.test/'') None"

text \<open>A page that mentions the brand name and nothing else of the term.\<close>

definition brand_page :: fetch_result where
  "brand_page =
     Fetched (asc ''acmewidgets rocks'') (asc ''<p>acmewidgets rocks</p>'') 200
       (asc ''https://site.test/links'') None"





text \<open>Pages served with status 200: one with an upper-case brand, one with the domain in
  mixed case, and one whose text starts with U+2102.\<close>

definition served :: "ustring \<Rightarrow> ustring \<Rightarrow> ustring \<Rightarrow> response" where
  "served final_url text_content html_content =
     \<lparr>resp_status = 200, resp_content = html_content, resp_text = Some html_content,
      resp_url = final_url, resp_parsed = Inr (text_content, html_content),
      resp_http_error = []\<rparr>"

definition brand_response :: response where
  "brand_response =
     served (asc ''https://site.test/links'') (asc ''AcmeWidgets rocks'')
       (asc ''<p>AcmeWidgets rocks</p>'')"

definition visit_response :: response where
  "visit_response =
     served (asc ''https://a.test/'') (asc ''Visit WWW.Example.com today'')
       (asc ''<p>Visit WWW.Example.com today</p>'')"

definition algebra_response :: response where
  "algebra_response =
     served (asc ''https://site.test/math'') (8450 # asc ''-Algebras and more'')
       (asc ''<p>'' @ 8450 # asc ''-Algebras and more</p>'')"

text \<open>A network that always answers with the same response, and one that answers with
  a first response on the first pass and with another one later.\<close>

definition always :: "response \<Rightarrow> nat \<Rightarrow> attempt" where
  "always r k = Response r"


definition default_verifier :: verifier where
  "default_verifier = \<lparr>vb_timeout = 10, vb_use_browser = False\<rparr>"

text \<open>
  Seven submitted lines: five URLs, the second with a blank before and a no-break space
  after it, a line that is a no-break space, and a line of blanks. The first URL is
  served the page above, the second meets an unexpected exception, the others time out.
\<close>

definition seven_lines :: "ustring list" where
  "seven_lines =
     [asc ''a.test'', 32 # asc ''b.test'' @ [160], [160], asc ''   '',
      asc ''c.test'', asc ''d.test'', asc ''e.test'']"

definition flaky_world :: "nat \<Rightarrow> nat \<Rightarrow> attempt" where
  "flaky_world i k =
     (if i = 0 then Response visit_response
      else if i = 1 then OtherException (asc ''Invalid IPv6 URL'')
      else Timeout)"

text \<open>Results of a batch: a verified one, an unverified one, and a failure whose
  exception had an empty message.\<close>

definition found_result :: backlink_result where
  "found_result =
     \<lparr>r_url = asc ''a.test'', r_search_term = asc ''example.com'', verified = True,
      error = None, status_code = Some 200, found_in = Some (asc ''Page Text''),
      r_context = Some (asc ''visit www.example.com today''),
      found_variation = Some (asc ''example.com''), warning = None\<rparr>"

definition missing_result :: backlink_result where
  "missing_result =
     \<lparr>r_url = asc ''site.test'', r_search_term = asc ''example.com'', verified = False,
      error = None, status_code = Some 200, found_in = None, r_context = None,
      found_variation = None, warning = None\<rparr>"

definition silent_failure :: backlink_result where
  "silent_failure =
     \<lparr>r_url = asc ''site.test'', r_search_term = asc ''example.com'', verified = False,
      error = Some [], status_code = None, found_in = None, r_context = None,
      found_variation = None, warning = None\<rparr>"

subsection \<open>Properties\<close>

lemma py_split_on_nonempty: "py_split_on d s \<noteq> []"
  by (induction s) (auto split: list.splits)

text \<open>
  Claim C8. With \<^verbatim>\<open>case_sensitive\<close> set, the list of variations is the one-element
  list holding the search term as it was given: it is not lower-cased and no protocol,
  \<^verbatim>\<open>www.\<close> or case variant is added.
\<close>

theorem case_sensitive_single_variation:
  "search_variations cm search_term True = [search_term]"
  by (simp add: search_variations_def)

subsection \<open>Substring test and search position\<close>

lemma py_find_ge: "- 1 \<le> py_find s v"
  by (induction s) (auto simp: Let_def)

lemma py_in_find: "py_in v s \<Longrightarrow> py_find s v \<noteq> - 1"
proof (induction s)
  case Nil
  then show ?case by simp
next
  case (Cons c s)
  show ?case
  proof (cases "prefix v (c # s)")
    case True
    then show ?thesis by simp
  next
    case False
    with Cons.prems have "py_in v s" by simp
    then have "py_find s v \<noteq> - 1" by (rule Cons.IH)
    with False show ?thesis using py_find_ge [of s v] by (simp add: Let_def)
  qed
qed

lemma py_in_set: "py_in v s \<Longrightarrow> set v \<subseteq> set s"
proof (induction s)
  case Nil
  then show ?case by simp
next
  case (Cons c s)
  show ?case
  proof (cases "prefix v (c # s)")
    case True
    then show ?thesis by (rule set_mono_prefix)
  next
    case False
    with Cons.prems have "py_in v s" by simp
    then have "set v \<subseteq> set s" by (rule Cons.IH)
    then show ?thesis by auto
  qed
qed

lemma hd_py_split_on: "hd (py_split_on d s) = takeWhile (\<lambda>c. c \<noteq> d) s"
proof (induction s)
  case Nil
  then show ?case by simp
next
  case (Cons c s)
  then show ?case
    using py_split_on_nonempty [of d s] by (cases "py_split_on d s") auto
qed

subsection \<open>A failed fetch\<close>

text \<open>
  Claim C1. When the fetch failed, the result of the match is not verified, has no
  location, no context and no matched variation, and carries the error message and the
  status code of the fetch result unchanged; the right-hand side mentions neither the
  variations nor any search step.
\<close>

theorem failed_fetch_is_propagated:
  "\<not> success result \<Longrightarrow>
   match_backlink cm result page_url search_term search_in_html case_sensitive =
     \<lparr>r_url = page_url, r_search_term = search_term, verified = False,
      error = fetch_error result, status_code = fetch_status result,
      found_in = None, r_context = None, found_variation = None, warning = None\<rparr>"
  by (cases result) (simp_all add: match_backlink_def)

theorem failed_fetch_is_propagated_witness:
  "\<not> success (Failed (asc ''403 Forbidden - Access denied'') (Some 403) (asc ''https://site.test''))
   \<and> match_backlink latin_case
        (Failed (asc ''403 Forbidden - Access denied'') (Some 403) (asc ''https://site.test''))
        (asc ''site.test'') (asc ''example.com'') True False =
     \<lparr>r_url = asc ''site.test'', r_search_term = asc ''example.com'', verified = False,
      error = Some (asc ''403 Forbidden - Access denied''), status_code = Some 403,
      found_in = None, r_context = None, found_variation = None, warning = None\<rparr>"
proof -
  have h: "\<not> success (Failed (asc ''403 Forbidden - Access denied'') (Some 403)
                        (asc ''https://site.test''))"
    by simp
  from failed_fetch_is_propagated [OF h, of latin_case "asc ''site.test''" "asc ''example.com''"
      True False]
  show ?thesis by simp
qed

subsection \<open>The invariant of a result\<close>

lemma run_steps_context:
  "s_context (run_steps cm t h u search_term sih cs) \<noteq> None \<Longrightarrow>
   found_in_text (run_steps cm t h u search_term sih cs)
   \<or> found_in_html (run_steps cm t h u search_term sih cs)"
  by (auto simp: run_steps_def step_domain_def step_url_def step_html_def step_text_def
        scan_init_def Let_def split: option.splits if_splits prod.splits)

lemma limit_context_None: "limit_context c \<noteq> None \<Longrightarrow> c \<noteq> None"
  by (cases c) (simp_all add: limit_context_def)

text \<open>
  Claim C2. For every fetch result, term and pair of flags, the result of the match is
  verified exactly when it names a location, and it has a context only when it is
  verified.
\<close>

theorem verified_iff_found_in:
  "verified (match_backlink cm result page_url search_term search_in_html case_sensitive) =
     (found_in (match_backlink cm result page_url search_term search_in_html case_sensitive) \<noteq> None)
   \<and> (r_context (match_backlink cm result page_url search_term search_in_html case_sensitive) \<noteq> None
        \<longrightarrow> verified (match_backlink cm result page_url search_term search_in_html case_sensitive))"
proof (cases result)
  case (Fetched t h sc u w)
  then show ?thesis
    using run_steps_context [of cm t h u search_term search_in_html case_sensitive]
    by (auto simp: match_backlink_def Let_def dest: limit_context_None)
next
  case (Failed e sc u)
  then show ?thesis by (simp add: match_backlink_def)
qed

theorem verified_iff_found_in_witness:
  "r_context (match_backlink latin_case partner_page (asc ''site.test/links'') (asc ''acmewidgets'')
                True False) = Some (asc ''HTML: partner'')
   \<and> verified (match_backlink latin_case partner_page (asc ''site.test/links'')
                 (asc ''acmewidgets'') True False)
   \<and> found_in (match_backlink latin_case partner_page (asc ''site.test/links'')
                 (asc ''acmewidgets'') True False) \<noteq> None"
proof -
  let ?r = "match_backlink latin_case partner_page (asc ''site.test/links'') (asc ''acmewidgets'')
              True False"
  have c: "r_context ?r = Some (asc ''HTML: partner'')"
    by code_simp
  then have "r_context ?r \<noteq> None"
    by simp
  with verified_iff_found_in [of latin_case partner_page "asc ''site.test/links''"
      "asc ''acmewidgets''" True False]
  have "verified ?r" and "found_in ?r \<noteq> None"
    by blast+
  with c show ?thesis by simp
qed

subsection \<open>The context of a match in the markup\<close>

lemma html_context_of_found:
  "py_in v h \<Longrightarrow>
     prefix (asc ''HTML: '') (html_context_of h v)
     \<or> html_context_of h v = asc ''Found in HTML source code''"
  using py_in_find [of v h] by (simp add: html_context_of_def Let_def)

text \<open>
  Claim C10. Whenever the scan of the markup returns a variation, \<^verbatim>\<open>find\<close> has located
  it, so the branch that sets \<^verbatim>\<open>Found in HTML attributes or tags\<close> is never taken: the
  context starts with \<^verbatim>\<open>HTML: \<close> or is \<^verbatim>\<open>Found in HTML source code\<close>.
\<close>

theorem html_scan_fallback_unreachable:
  "html_scan vs html_content = Some (variation, ctx) \<Longrightarrow>
     py_find html_content variation \<noteq> - 1
     \<and> (prefix (asc ''HTML: '') ctx \<or> ctx = asc ''Found in HTML source code'')
     \<and> ctx \<noteq> asc ''Found in HTML attributes or tags''"
proof (induction vs)
  case Nil
  then show ?case by simp
next
  case (Cons v vs)
  show ?case
  proof (cases "py_in v html_content")
    case True
    with Cons.prems have eq: "variation = v" "ctx = html_context_of html_content v" by auto
    from True have "py_find html_content v \<noteq> - 1" by (rule py_in_find)
    moreover from True have "prefix (asc ''HTML: '') (html_context_of html_content v)
        \<or> html_context_of html_content v = asc ''Found in HTML source code''"
      by (rule html_context_of_found)
    moreover have "\<not> prefix (asc ''HTML: '') (asc ''Found in HTML attributes or tags'')"
      and "asc ''Found in HTML source code'' \<noteq> asc ''Found in HTML attributes or tags''"
      by (simp_all add: asc_def)
    ultimately show ?thesis using eq by auto
  next
    case False
    with Cons show ?thesis by simp
  qed
qed

theorem html_scan_fallback_unreachable_witness:
  "html_scan (search_variations latin_case (asc ''acmewidgets'') False)
     (asc ''<a href=https://acmewidgets.io/partner>partner</a>'')
     = Some (asc ''acmewidgets'', asc ''HTML: partner'')
   \<and> py_find (asc ''<a href=https://acmewidgets.io/partner>partner</a>'') (asc ''acmewidgets'')
       \<noteq> - 1
   \<and> asc ''HTML: partner'' \<noteq> asc ''Found in HTML attributes or tags''"
proof -
  have h: "html_scan (search_variations latin_case (asc ''acmewidgets'') False)
             (asc ''<a href=https://acmewidgets.io/partner>partner</a>'')
           = Some (asc ''acmewidgets'', asc ''HTML: partner'')"
    by code_simp
  from html_scan_fallback_unreachable [OF h] h show ?thesis by blast
qed

subsection \<open>The scenario of a domain found with its \<^verbatim>\<open>www.\<close> prefix\<close>

lemma example_com_in_text:
  "py_in (asc ''example.com'') (asc ''visit www.example.com today'')"
  by code_simp

lemma example_com_context:
  "text_context cm (asc ''visit www.example.com today'') (asc ''example.com'')
     = Some (asc ''visit www.example.com today'')"
proof -
  have found: "py_find (asc ''visit www.example.com today'') (asc ''example.com'') = 10"
    by code_simp
  have whole: "py_slice (asc ''visit www.example.com today'') 0 27
                 = asc ''visit www.example.com today''"
    by code_simp
  have words: "py_join (asc '' '') (py_split (asc ''visit www.example.com today''))
                 = asc ''visit www.example.com today''"
    by code_simp
  have len: "length (asc ''visit www.example.com today'') = 27"
    "length (asc ''example.com'') = 11"
    by (simp_all add: asc_def)
  show ?thesis
    by (simp add: text_context_def Let_def found len whole words)
qed

lemma example_com_text_scan:
  assumes "str_lower cm (asc ''example.com'') = asc ''example.com''"
  shows "text_scan cm (search_variations cm (asc ''example.com'') False)
           (asc ''visit www.example.com today'')
         = Some (asc ''example.com'', Some (asc ''visit www.example.com today''))"
  by (simp add: search_variations_def Let_def assms example_com_in_text example_com_context)

lemma example_com_match:
  assumes "str_lower cm (asc ''example.com'') = asc ''example.com''"
  shows "match_backlink cm
           (Fetched (asc ''visit www.example.com today'') html_content status final_url warn)
           page_url (asc ''example.com'') search_in_html False =
         \<lparr>r_url = page_url, r_search_term = asc ''example.com'', verified = True,
          error = None, status_code = Some status, found_in = Some (asc ''Page Text''),
          r_context = Some (asc ''visit www.example.com today''),
          found_variation = Some (asc ''example.com''), warning = warn\<rparr>"
proof -
  have "asc ''visit www.example.com today'' \<noteq> []"
    and "length (asc ''visit www.example.com today'') \<le> 500"
    by (simp_all add: asc_def)
  then show ?thesis
    by (simp add: match_backlink_def run_steps_def step_domain_def step_url_def step_html_def
          step_text_def example_com_text_scan [OF assms] scan_init_def limit_context_def Let_def)
qed

lemma latin_lower_example_com: "str_lower latin_case (asc ''example.com'') = asc ''example.com''"
  by code_simp

text \<open>
  Claim C4, as the code has it. For the term \<^verbatim>\<open>example.com\<close>, not case-sensitive, and a
  page whose text is \<^verbatim>\<open>visit www.example.com today\<close>, the result is verified and found
  in the page text, and the matched variation is the lower-cased term \<^verbatim>\<open>example.com\<close>
  itself: it is the first variation generated and it occurs in the text, so no variation
  with a \<^verbatim>\<open>www.\<close> prefix is ever tried. (All this takes of the case operations is that
  lower-casing leaves \<^verbatim>\<open>example.com\<close> as it is.)
\<close>

theorem example_com_matches_base_term:
  "match_backlink latin_case
     (Fetched (asc ''visit www.example.com today'') html_content status final_url warn)
     page_url (asc ''example.com'') search_in_html False =
   \<lparr>r_url = page_url, r_search_term = asc ''example.com'', verified = True,
    error = None, status_code = Some status, found_in = Some (asc ''Page Text''),
    r_context = Some (asc ''visit www.example.com today''),
    found_variation = Some (asc ''example.com''), warning = warn\<rparr>"
  using latin_lower_example_com by (rule example_com_match)

text \<open>
  The claim as it was stated fails on that page: the matched variation is none of the
  generated variations that contain \<^verbatim>\<open>www.\<close>.
\<close>

theorem example_com_counterexample:
  "\<not> (verified (match_backlink latin_case visit_page (asc ''site.test'') (asc ''example.com'')
                   True False)
      \<and> found_in (match_backlink latin_case visit_page (asc ''site.test'') (asc ''example.com'')
                     True False) = Some (asc ''Page Text'')
      \<and> found_variation (match_backlink latin_case visit_page (asc ''site.test'')
                            (asc ''example.com'') True False)
          \<in> Some ` set (filter (py_in (asc ''www.''))
                          (search_variations latin_case (asc ''example.com'') False)))"
  by code_simp

subsection \<open>The last step: the domain among the links\<close>

lemma domain_label_www:
  assumes "\<not> py_in (asc ''http'') (str_lower cm search_term)"
      and "prefix (asc ''www.'') (str_lower cm search_term)"
  shows "domain_label cm search_term = asc ''www''"
proof -
  from assms(2) obtain rest where "str_lower cm search_term = asc ''www.'' @ rest"
    by (auto simp: prefix_def)
  with assms(1) show ?thesis
    by (simp add: domain_label_def search_domain_of_def hd_py_split_on asc_def)
qed

text \<open>
  Claim C5, as the code has it. When the scans of the text, of the markup and of the final
  URL found nothing and \<^verbatim>\<open>search_in_html\<close> is set, the result is decided by the first
  dot-separated label of the domain token: if it is longer than 3 characters and occurs
  in the markup, the result is found in \<^verbatim>\<open>HTML/Links\<close> with the context
  \<^verbatim>\<open>Domain found in page links\<close> and the token as matched variation; otherwise it is not
  verified. The token is the lower-cased term; the protocol and \<^verbatim>\<open>www.\<close> are removed
  and the path is cut off only when the lower-cased term contains \<^verbatim>\<open>http\<close>. So for a
  term that starts with \<^verbatim>\<open>www.\<close> and contains no \<^verbatim>\<open>http\<close> the label is \<^verbatim>\<open>www\<close>,
  which is not longer than 3 characters, and the step never fires.
\<close>

theorem domain_step_behaviour:
  assumes "text_scan cm (search_variations cm search_term case_sensitive) text_content = None"
      and "html_scan (search_variations cm search_term case_sensitive) html_content = None"
      and "url_scan (search_variations cm search_term case_sensitive) (str_lower cm final_url)
             = None"
  shows "match_backlink cm (Fetched text_content html_content status final_url warn)
           page_url search_term True case_sensitive =
         (if py_in (domain_label cm search_term) html_content
             \<and> 3 < length (domain_label cm search_term)
          then \<lparr>r_url = page_url, r_search_term = search_term, verified = True,
                error = None, status_code = Some status, found_in = Some (asc ''HTML/Links''),
                r_context = Some (asc ''Domain found in page links''),
                found_variation = Some (search_domain_of cm search_term), warning = warn\<rparr>
          else \<lparr>r_url = page_url, r_search_term = search_term, verified = False,
                error = None, status_code = Some status, found_in = None,
                r_context = None, found_variation = None, warning = warn\<rparr>)
       \<and> domain_label cm search_term =
           takeWhile (\<lambda>c. c \<noteq> 46)
             (if py_in (asc ''http'') (str_lower cm search_term)
              then takeWhile (\<lambda>c. c \<noteq> 47)
                     (py_replace
                        (py_replace (py_replace (str_lower cm search_term) (asc ''https://'') [])
                           (asc ''http://'') [])
                        (asc ''www.'') [])
              else str_lower cm search_term)
       \<and> (\<not> py_in (asc ''http'') (str_lower cm search_term)
            \<and> prefix (asc ''www.'') (str_lower cm search_term)
            \<longrightarrow> \<not> verified (match_backlink cm
                               (Fetched text_content html_content status final_url warn)
                               page_url search_term True case_sensitive))"
proof -
  let ?r = "match_backlink cm (Fetched text_content html_content status final_url warn)
              page_url search_term True case_sensitive"
  have run: "run_steps cm text_content html_content final_url search_term True case_sensitive =
      (if domain_in_links cm search_term html_content
       then scan_init\<lparr>found_in_html := True,
              s_variation := Some (search_domain_of cm search_term),
              s_context := Some (asc ''Domain found in page links'')\<rparr>
       else scan_init)"
    using assms
    by (simp add: run_steps_def step_domain_def step_url_def step_html_def step_text_def
          scan_init_def Let_def)
  have nonempty: "asc ''Domain found in page links'' \<noteq> []"
    "take 500 (asc ''Domain found in page links'') = asc ''Domain found in page links''"
    by (simp_all add: asc_def)
  have first: "?r =
         (if py_in (domain_label cm search_term) html_content
             \<and> 3 < length (domain_label cm search_term)
          then \<lparr>r_url = page_url, r_search_term = search_term, verified = True,
                error = None, status_code = Some status, found_in = Some (asc ''HTML/Links''),
                r_context = Some (asc ''Domain found in page links''),
                found_variation = Some (search_domain_of cm search_term), warning = warn\<rparr>
          else \<lparr>r_url = page_url, r_search_term = search_term, verified = False,
                error = None, status_code = Some status, found_in = None,
                r_context = None, found_variation = None, warning = warn\<rparr>)"
    by (simp add: match_backlink_def run domain_in_links_def scan_init_def limit_context_def
          nonempty)
  have second: "domain_label cm search_term =
           takeWhile (\<lambda>c. c \<noteq> 46)
             (if py_in (asc ''http'') (str_lower cm search_term)
              then takeWhile (\<lambda>c. c \<noteq> 47)
                     (py_replace
                        (py_replace (py_replace (str_lower cm search_term) (asc ''https://'') [])
                           (asc ''http://'') [])
                        (asc ''www.'') [])
              else str_lower cm search_term)"
    by (simp add: domain_label_def search_domain_of_def hd_py_split_on Let_def)
  have third: "\<not> verified ?r"
    if "\<not> py_in (asc ''http'') (str_lower cm search_term)"
      "prefix (asc ''www.'') (str_lower cm search_term)"
  proof -
    from that have "domain_label cm search_term = asc ''www''" by (rule domain_label_www)
    then show ?thesis by (simp add: first asc_def)
  qed
  from first second third show ?thesis by blast
qed

text \<open>
  The theorem at work on a page that mentions \<^verbatim>\<open>acmewidgets\<close> only: the case-sensitive
  term \<^verbatim>\<open>https://AcmeWidgets.io/partner\<close> is found by the last step, the case-sensitive
  term \<^verbatim>\<open>www.AcmeWidgets.io\<close> is not.
\<close>

theorem domain_step_behaviour_witness:
  "text_scan latin_case (search_variations latin_case (asc ''https://AcmeWidgets.io/partner'') True)
     (asc ''acmewidgets rocks'') = None
   \<and> html_scan (search_variations latin_case (asc ''https://AcmeWidgets.io/partner'') True)
        (asc ''<p>acmewidgets rocks</p>'') = None
   \<and> url_scan (search_variations latin_case (asc ''https://AcmeWidgets.io/partner'') True)
        (str_lower latin_case (asc ''https://site.test/links'')) = None
   \<and> found_in (match_backlink latin_case brand_page (asc ''site.test/links'')
                  (asc ''https://AcmeWidgets.io/partner'') True True) = Some (asc ''HTML/Links'')
   \<and> found_variation (match_backlink latin_case brand_page (asc ''site.test/links'')
                         (asc ''https://AcmeWidgets.io/partner'') True True)
       = Some (asc ''acmewidgets.io'')
   \<and> text_scan latin_case (search_variations latin_case (asc ''www.AcmeWidgets.io'') True)
        (asc ''acmewidgets rocks'') = None
   \<and> html_scan (search_variations latin_case (asc ''www.AcmeWidgets.io'') True)
        (asc ''<p>acmewidgets rocks</p>'') = None
   \<and> url_scan (search_variations latin_case (asc ''www.AcmeWidgets.io'') True)
        (str_lower latin_case (asc ''https://site.test/links'')) = None
   \<and> \<not> py_in (asc ''http'') (str_lower latin_case (asc ''www.AcmeWidgets.io''))
   \<and> prefix (asc ''www.'') (str_lower latin_case (asc ''www.AcmeWidgets.io''))
   \<and> \<not> verified (match_backlink latin_case brand_page (asc ''site.test/links'')
                    (asc ''www.AcmeWidgets.io'') True True)"
proof -
  have a: "text_scan latin_case
             (search_variations latin_case (asc ''https://AcmeWidgets.io/partner'') True)
             (asc ''acmewidgets rocks'') = None"
    "html_scan (search_variations latin_case (asc ''https://AcmeWidgets.io/partner'') True)
             (asc ''<p>acmewidgets rocks</p>'') = None"
    "url_scan (search_variations latin_case (asc ''https://AcmeWidgets.io/partner'') True)
             (str_lower latin_case (asc ''https://site.test/links'')) = None"
    by code_simp+
  have fires: "py_in (domain_label latin_case (asc ''https://AcmeWidgets.io/partner''))
                 (asc ''<p>acmewidgets rocks</p>'')
      \<and> 3 < length (domain_label latin_case (asc ''https://AcmeWidgets.io/partner''))"
    "search_domain_of latin_case (asc ''https://AcmeWidgets.io/partner'') = asc ''acmewidgets.io''"
    by code_simp+
  have b: "text_scan latin_case (search_variations latin_case (asc ''www.AcmeWidgets.io'') True)
             (asc ''acmewidgets rocks'') = None"
    "html_scan (search_variations latin_case (asc ''www.AcmeWidgets.io'') True)
       (asc ''<p>acmewidgets rocks</p>'') = None"
    "url_scan (search_variations latin_case (asc ''www.AcmeWidgets.io'') True)
       (str_lower latin_case (asc ''https://site.test/links'')) = None"
    by code_simp+
  have www: "\<not> py_in (asc ''http'') (str_lower latin_case (asc ''www.AcmeWidgets.io''))"
    "prefix (asc ''www.'') (str_lower latin_case (asc ''www.AcmeWidgets.io''))"
    by code_simp+
  from domain_step_behaviour [OF a, of 200 None "asc ''site.test/links''"] fires
  have one: "found_in (match_backlink latin_case brand_page (asc ''site.test/links'')
                        (asc ''https://AcmeWidgets.io/partner'') True True)
               = Some (asc ''HTML/Links'')"
    "found_variation (match_backlink latin_case brand_page (asc ''site.test/links'')
                        (asc ''https://AcmeWidgets.io/partner'') True True)
       = Some (asc ''acmewidgets.io'')"
    by (simp_all add: brand_page_def)
  from domain_step_behaviour [OF b, of 200 None "asc ''site.test/links''"] www
  have two: "\<not> verified (match_backlink latin_case brand_page (asc ''site.test/links'')
                            (asc ''www.AcmeWidgets.io'') True True)"
    unfolding brand_page_def by blast
  from a b www one two show ?thesis by simp
qed

text \<open>
  The claim as it was stated fails for the case-sensitive term \<^verbatim>\<open>www.example.com\<close>: the
  three earlier steps find nothing, the label left after removing \<^verbatim>\<open>www.\<close> is
  \<^verbatim>\<open>example\<close>, longer than 3 characters and present in the markup, and yet the result
  is not found in \<^verbatim>\<open>HTML/Links\<close>.
\<close>

theorem www_term_counterexample:
  "text_scan latin_case (search_variations latin_case (asc ''www.example.com'') True)
     (asc ''an example of a page'') = None
   \<and> html_scan (search_variations latin_case (asc ''www.example.com'') True)
        (asc ''<p>an example of a page</p>'') = None
   \<and> url_scan (search_variations latin_case (asc ''www.example.com'') True)
        (str_lower latin_case (asc ''https://site.test/'')) = None
   \<and> hd (py_split_on 46 (hd (py_split_on 47
          (py_replace (asc ''www.example.com'') (asc ''www.'') [])))) = asc ''example''
   \<and> 3 < length (asc ''example'')
   \<and> py_in (asc ''example'') (asc ''<p>an example of a page</p>'')
   \<and> found_in (match_backlink latin_case
         (Fetched (asc ''an example of a page'') (asc ''<p>an example of a page</p>'') 200
            (asc ''https://site.test/'') None)
         (asc ''site.test'') (asc ''www.example.com'') True True) \<noteq> Some (asc ''HTML/Links'')
   \<and> \<not> verified (match_backlink latin_case
         (Fetched (asc ''an example of a page'') (asc ''<p>an example of a page</p>'') 200
            (asc ''https://site.test/'') None)
         (asc ''site.test'') (asc ''www.example.com'') True True)"
  by code_simp

subsection \<open>A response with status 403\<close>







subsection \<open>A fetched page is lower-cased\<close>

lemma handle_response_lowered:
  "handle_response cm u retry r = Some (Inr (Fetched t h sc fu w)) \<Longrightarrow>
     t \<in> range (str_lower cm) \<and> h \<in> range (str_lower cm)"
  by (auto simp: handle_response_def forbidden_content_def Let_def
        split: if_splits option.splits sum.splits prod.splits)

lemma handle_attempt_lowered:
  "handle_attempt cm self u retry a = Some (Inr (Fetched t h sc fu w)) \<Longrightarrow>
     t \<in> range (str_lower cm) \<and> h \<in> range (str_lower cm)"
  by (cases a) (auto simp: handle_attempt_def dest: handle_response_lowered split: if_splits)

lemma fetch_attempts_lowered:
  "fetch_attempts cm self env u m k n = Inr (Fetched t h sc fu w) \<Longrightarrow>
     t \<in> range (str_lower cm) \<and> h \<in> range (str_lower cm)"
proof (induction n arbitrary: k)
  case 0
  then show ?case by simp
next
  case (Suc n)
  show ?case
  proof (cases "handle_attempt cm self u (int k < m - 1) (env k)")
    case None
    with Suc.prems have "fetch_attempts cm self env u m (Suc k) n = Inr (Fetched t h sc fu w)"
      by simp
    then show ?thesis by (rule Suc.IH)
  next
    case (Some outcome)
    with Suc.prems have "handle_attempt cm self u (int k < m - 1) (env k)
        = Some (Inr (Fetched t h sc fu w))" by simp
    then show ?thesis by (rule handle_attempt_lowered)
  qed
qed

lemma fetch_page_content_lowered:
  "fetch_page_content cm self env u m = Inr (Fetched t h sc fu w) \<Longrightarrow>
     t \<in> range (str_lower cm) \<and> h \<in> range (str_lower cm)"
  unfolding fetch_page_content_def by (rule fetch_attempts_lowered)

lemma not_in_lowered:
  assumes "\<exists>c\<in>set v. \<forall>s. c \<notin> set (str_lower cm s)"
      and "t \<in> range (str_lower cm)"
  shows "\<not> py_in v t"
proof
  assume "py_in v t"
  then have "set v \<subseteq> set t" by (rule py_in_set)
  moreover from assms(2) obtain x where "t = str_lower cm x" by blast
  ultimately show False using assms(1) by blast
qed

lemma latin_lower_no_capital:
  assumes "65 \<le> c" and "c \<le> 90"
  shows "c \<notin> set (str_lower latin_case s)"
proof -
  have "c \<notin> set (lower_cp d)" for d
    using assms by (auto simp: lower_cp_def)
  then show ?thesis
    by (simp add: latin_case_def latin_lower_def)
qed

text \<open>
  Claim C9, as the code has it. For a page that \<^verbatim>\<open>fetch_page_content\<close> returned as a
  success, a case-sensitive search for a term with a character that lower-casing never
  yields (the capitals A to Z are such characters) finds nothing in the text and nothing
  in the markup; if the result is verified all the same, it was found in \<^verbatim>\<open>HTML/Links\<close>,
  and its context is that of the check of the final URL or that of the last step.
\<close>

theorem unlowered_term_case_sensitive:
  assumes fetched: "fetch_page_content cm self env u max_retries
                      = Inr (Fetched text_content html_content status final_url warn)"
      and never: "\<exists>c\<in>set search_term. \<forall>s. c \<notin> set (str_lower cm s)"
  shows "text_scan cm (search_variations cm search_term True) text_content = None
       \<and> html_scan (search_variations cm search_term True) html_content = None
       \<and> (verified (match_backlink cm (Fetched text_content html_content status final_url warn)
                      u search_term search_in_html True)
            \<longrightarrow> found_in (match_backlink cm
                            (Fetched text_content html_content status final_url warn)
                            u search_term search_in_html True) = Some (asc ''HTML/Links'')
              \<and> (r_context (match_backlink cm
                              (Fetched text_content html_content status final_url warn)
                              u search_term search_in_html True)
                    = Some (take 500 (asc ''Found in page URL: '' @ str_lower cm final_url))
                  \<or> r_context (match_backlink cm
                                 (Fetched text_content html_content status final_url warn)
                                 u search_term search_in_html True)
                    = Some (asc ''Domain found in page links'')))"
proof -
  from fetched have low: "text_content \<in> range (str_lower cm)"
      "html_content \<in> range (str_lower cm)"
    using fetch_page_content_lowered by blast+
  have no: "\<not> py_in search_term text_content" "\<not> py_in search_term html_content"
    using not_in_lowered [OF never low(1)] not_in_lowered [OF never low(2)] by blast+
  then have scans: "text_scan cm (search_variations cm search_term True) text_content = None"
      "html_scan (search_variations cm search_term True) html_content = None"
    by (simp_all add: search_variations_def)
  have texts: "asc ''Found in page URL: '' @ str_lower cm final_url \<noteq> []"
    "asc ''Domain found in page links'' \<noteq> []"
    "take 500 (asc ''Domain found in page links'') = asc ''Domain found in page links''"
    by (simp_all add: asc_def)
  show ?thesis
    using scans texts
    by (auto simp: match_backlink_def run_steps_def step_domain_def step_url_def step_html_def
          step_text_def scan_init_def limit_context_def Let_def
          split: option.splits if_splits)
qed

theorem unlowered_term_case_sensitive_witness:
  "fetch_page_content latin_case default_verifier (always brand_response)
     (asc ''site.test/links'') 3
     = Inr (Fetched (asc ''acmewidgets rocks'') (asc ''<p>acmewidgets rocks</p>'') 200
              (asc ''https://site.test/links'') None)
   \<and> 65 \<in> set (asc ''https://AcmeWidgets.io/partner'')
   \<and> (\<forall>s. 65 \<notin> set (str_lower latin_case s))
   \<and> verified (match_backlink latin_case
        (Fetched (asc ''acmewidgets rocks'') (asc ''<p>acmewidgets rocks</p>'') 200
           (asc ''https://site.test/links'') None)
        (asc ''site.test/links'') (asc ''https://AcmeWidgets.io/partner'') True True)
   \<and> found_in (match_backlink latin_case
        (Fetched (asc ''acmewidgets rocks'') (asc ''<p>acmewidgets rocks</p>'') 200
           (asc ''https://site.test/links'') None)
        (asc ''site.test/links'') (asc ''https://AcmeWidgets.io/partner'') True True)
       = Some (asc ''HTML/Links'')
   \<and> text_scan latin_case
        (search_variations latin_case (asc ''https://AcmeWidgets.io/partner'') True)
        (asc ''acmewidgets rocks'') = None"
proof -
  have f: "fetch_page_content latin_case default_verifier (always brand_response)
             (asc ''site.test/links'') 3
           = Inr (Fetched (asc ''acmewidgets rocks'') (asc ''<p>acmewidgets rocks</p>'') 200
                    (asc ''https://site.test/links'') None)"
    by code_simp
  have mem: "65 \<in> set (asc ''https://AcmeWidgets.io/partner'')"
    by code_simp
  have none: "\<forall>s. 65 \<notin> set (str_lower latin_case s)"
    by (simp add: latin_lower_no_capital)
  from mem none
  have never: "\<exists>c\<in>set (asc ''https://AcmeWidgets.io/partner'').
                 \<forall>s. c \<notin> set (str_lower latin_case s)"
    by blast
  have v: "verified (match_backlink latin_case
        (Fetched (asc ''acmewidgets rocks'') (asc ''<p>acmewidgets rocks</p>'') 200
           (asc ''https://site.test/links'') None)
        (asc ''site.test/links'') (asc ''https://AcmeWidgets.io/partner'') True True)"
    by code_simp
  from unlowered_term_case_sensitive [OF f never, of True] v f mem none
  show ?thesis by blast
qed

text \<open>
  The claim as it was stated, for every term with an upper-case letter, fails: U+2102 is
  an upper-case letter that \<^verbatim>\<open>lower()\<close> leaves as it is, so it is still in the
  lower-cased page, and the case-sensitive term is found in the page text.
\<close>

theorem double_struck_counterexample:
  "isupper_cp 8450
   \<and> 8450 \<in> set (8450 # asc ''-algebras'')
   \<and> fetch_page_content latin_case default_verifier (always algebra_response)
       (asc ''site.test/math'') 3
       = Inr (Fetched (8450 # asc ''-algebras and more'')
                (asc ''<p>'' @ 8450 # asc ''-algebras and more</p>'') 200
                (asc ''https://site.test/math'') None)
   \<and> text_scan latin_case (search_variations latin_case (8450 # asc ''-algebras'') True)
       (8450 # asc ''-algebras and more'')
       = Some (8450 # asc ''-algebras'', Some (8450 # asc ''-algebras and more''))
   \<and> found_in (match_backlink latin_case
        (Fetched (8450 # asc ''-algebras and more'')
           (asc ''<p>'' @ 8450 # asc ''-algebras and more</p>'') 200
           (asc ''https://site.test/math'') None)
        (asc ''site.test/math'') (8450 # asc ''-algebras'') True True)
       = Some (asc ''Page Text'')"
  by code_simp

subsection \<open>The summary of a batch\<close>

lemma sum_ones: "sum_list (map (\<lambda>r. Suc 0) xs) = length xs"
  by (induction xs) simp_all

lemma truthy_iff: "truthy e = (e \<noteq> None \<and> e \<noteq> Some [])"
  by (cases e) (simp_all add: truthy_def)

lemma summary_of_eq:
  "summary_of results =
     \<lparr>total_urls = length results,
      verified_count = length (filter verified results),
      error_count = length (filter (\<lambda>r. error r \<noteq> None \<and> error r \<noteq> Some []) results),
      success_rate =
        (if length results = 0 then 0
         else py_round1 (binary64 (binary64 (of_nat (length (filter verified results))
                                              / of_nat (length results)) * 100)))\<rparr>"
  by (simp add: summary_of_def Let_def sum_ones true_div_def float_mul_def truthy_iff)

text \<open>
  Claim C7, as the code has it. The summary of a list of results has the length of the
  list as total, the number of verified results as verified count, and as error count the
  number of results whose error message is present and not empty. The success rate is 0
  for the empty list; otherwise it is \<^verbatim>\<open>round((verified_count / total_count) * 100, 1)\<close>
  in double precision, in this order: the quotient is rounded to a double, then its
  product with 100 is rounded to a double, then that double is rounded to one decimal.
\<close>

theorem summary_of_counts:
  "total_urls (summary_of results) = length results
   \<and> verified_count (summary_of results) = length (filter verified results)
   \<and> error_count (summary_of results)
       = length (filter (\<lambda>r. error r \<noteq> None \<and> error r \<noteq> Some []) results)
   \<and> success_rate (summary_of results) =
        (if length results = 0 then 0
         else py_round1 (binary64 (binary64 (of_nat (length (filter verified results))
                                              / of_nat (length results)) * 100)))"
  by (simp add: summary_of_eq)

text \<open>
  The claim as it was stated fails in two places. With 23 verified results out of 80 the
  quotient \<open>23 / 80\<close> rounds to a double whose product with 100 rounds to a double just
  below \<open>28.75\<close>, so the code returns \<open>28.7\<close>, whereas \<open>100 * 23 / 80\<close> is exactly
  \<open>28.75\<close> and rounds to \<open>28.8\<close>. And a result whose error message is the empty string
  has a message that is not absent, yet it is not counted.
\<close>

lemma quotient_23_80: "binary64 (23 / 80) = 2589569785738035 / 9007199254740992"
  by code_simp

lemma product_23_80:
  "binary64 (2589569785738035 / 9007199254740992 * 100) = 8092405580431359 / 281474976710656"
  by code_simp

lemma decimal_23_80: "round_half_even (8092405580431359 / 281474976710656 * 10) = 287"
  by code_simp

lemma quotient_2300_80: "binary64 (115 / 4) = 115 / 4"
  by code_simp

lemma decimal_2300_80: "round_half_even (115 / 4 * 10) = 288"
  by code_simp

lemma double_28_7: "binary64 (287 / 10) = 8078331831595827 / 281474976710656"
  by code_simp

lemma double_28_8: "binary64 (288 / 10) = 8106479329266893 / 281474976710656"
  by code_simp

theorem success_rate_counterexample:
  "verified_count (summary_of (replicate 23 found_result @ replicate 57 missing_result)) = 23
   \<and> total_urls (summary_of (replicate 23 found_result @ replicate 57 missing_result)) = 80
   \<and> success_rate (summary_of (replicate 23 found_result @ replicate 57 missing_result))
        = binary64 (287 / 10)
   \<and> spec_success_rate 23 80 = binary64 (288 / 10)
   \<and> binary64 (287 / 10) \<noteq> binary64 (288 / 10)
   \<and> error silent_failure \<noteq> None
   \<and> error_count (summary_of [silent_failure]) = 0"
proof -
  let ?rs = "replicate 23 found_result @ replicate 57 missing_result"
  have len: "length ?rs = 80" by simp
  have ver: "length (filter verified ?rs) = 23"
    by (simp add: found_result_def missing_result_def)
  have "success_rate (summary_of ?rs) = py_round1 (binary64 (binary64 (23 / 80) * 100))"
    by (simp only: summary_of_eq len ver; simp)
  also have "\<dots> = binary64 (287 / 10)"
    by (simp only: py_round1_def quotient_23_80 product_23_80 decimal_23_80; simp)
  finally have rate: "success_rate (summary_of ?rs) = binary64 (287 / 10)" .
  have "spec_success_rate 23 80 = py_round1 (binary64 (115 / 4))"
    by (simp add: spec_success_rate_def true_div_def)
  also have "\<dots> = binary64 (288 / 10)"
    by (simp only: py_round1_def quotient_2300_80 decimal_2300_80; simp)
  finally have spec: "spec_success_rate 23 80 = binary64 (288 / 10)" .
  have differ: "binary64 (287 / 10) \<noteq> binary64 (288 / 10)"
    by (simp only: double_28_7 double_28_8; simp)
  have counts: "verified_count (summary_of ?rs) = 23" "total_urls (summary_of ?rs) = 80"
    by (simp_all add: summary_of_eq found_result_def missing_result_def)
  have err: "error silent_failure \<noteq> None" "error_count (summary_of [silent_failure]) = 0"
    by (simp_all add: summary_of_eq silent_failure_def)
  from counts rate spec differ err show ?thesis by blast
qed

subsection \<open>One result for every submitted URL\<close>

lemma match_backlink_url: "r_url (match_backlink cm result u search_term sih cs) = u"
  by (cases result) (simp_all add: match_backlink_def Let_def)

lemma guarded_verify_url: "r_url (guarded_verify cm self env u search_term sih cs) = py_strip u"
  by (auto simp: guarded_verify_def verify_backlink_def processing_error_def match_backlink_url
        split: sum.splits)

lemma mset_as_completed:
  assumes "mset order = mset [0..<length futures]"
  shows "mset (as_completed order futures) = mset futures"
proof -
  have "mset (as_completed order futures) = image_mset (\<lambda>i. futures ! i) (mset order)"
    by (simp add: as_completed_def)
  also have "\<dots> = image_mset (\<lambda>i. futures ! i) (mset [0..<length futures])"
    by (simp add: assms)
  also have "\<dots> = mset (map (\<lambda>i. futures ! i) [0..<length futures])"
    by simp
  also have "\<dots> = mset futures"
    by (simp add: map_nth)
  finally show ?thesis .
qed

lemma submitted_urls: "map snd (submitted urls) = filter (\<lambda>u. py_strip u \<noteq> []) urls"
  by (simp add: submitted_def)

lemma submitted_length:
  "length (submitted urls) = length (filter (\<lambda>u. py_strip u \<noteq> []) urls)"
  by (simp add: submitted_def)

lemma batch_returns:
  assumes "use_browser \<longrightarrow> vb_use_browser self" and "1 \<le> max_workers"
  shows "verify_multiple_backlinks cm self world order urls search_term search_in_html
           case_sensitive max_workers use_browser =
         Inr (if min (if vb_use_browser self then 1 else max_workers) 3 = 1
              then map (\<lambda>(i, u). guarded_verify cm self (world i) u search_term
                                    search_in_html case_sensitive) (submitted urls)
              else map (\<lambda>(i, u). guarded_verify cm self (world i) u search_term
                                    search_in_html case_sensitive)
                     (as_completed order (submitted urls)))"
proof -
  from assms(2) have "\<not> min (if vb_use_browser self then 1 else max_workers) 3 \<le> 0"
    by auto
  with assms(1) show ?thesis
    unfolding verify_multiple_backlinks_def Let_def by auto
qed

text \<open>
  Claim C6. With a pool size of at least one (and the browser flag of the call not set
  on a verifier built without it), the batch returns a list. It holds, in some order,
  exactly one entry for each submitted URL, that is, for each URL that is not blank: the
  result that \<^verbatim>\<open>verify_backlink\<close> returned for the stripped URL, or, where it raised an
  exception with message \<open>msg\<close>, a result that is not verified and whose error is
  \<^verbatim>\<open>Processing error: \<close> followed by \<open>msg\<close>. So there are as many results as
  non-blank URLs, and that number is the total of the summary.
\<close>

theorem batch_one_result_per_url:
  assumes browser: "use_browser \<longrightarrow> vb_use_browser self"
      and workers: "1 \<le> max_workers"
      and order: "mset order = mset [0..<length (submitted urls)]"
  shows "\<exists>results.
           verify_multiple_backlinks cm self world order urls search_term search_in_html
             case_sensitive max_workers use_browser = Inr results
         \<and> mset results =
             mset (map (\<lambda>(i, u).
                          case verify_backlink cm self (world i) (py_strip u) search_term
                                 search_in_html case_sensitive of
                            Inl msg \<Rightarrow>
                              \<lparr>r_url = py_strip u, r_search_term = search_term, verified = False,
                               error = Some (asc ''Processing error: '' @ msg),
                               status_code = None, found_in = None, r_context = None,
                               found_variation = None, warning = None\<rparr>
                          | Inr r \<Rightarrow> r)
                     (submitted urls))
         \<and> length results = length (filter (\<lambda>u. py_strip u \<noteq> []) urls)
         \<and> total_urls (summary_of results) = length (filter (\<lambda>u. py_strip u \<noteq> []) urls)
         \<and> mset (map r_url results) = mset (map py_strip (filter (\<lambda>u. py_strip u \<noteq> []) urls))
         \<and> (\<forall>(i, u) \<in> set (submitted urls). \<forall>r.
               verify_backlink cm self (world i) (py_strip u) search_term search_in_html
                 case_sensitive = Inr r
               \<longrightarrow> r \<in> set results)
         \<and> (\<forall>(i, u) \<in> set (submitted urls). \<forall>msg.
               verify_backlink cm self (world i) (py_strip u) search_term search_in_html
                 case_sensitive = Inl msg
               \<longrightarrow> processing_error (py_strip u) search_term msg \<in> set results
                 \<and> \<not> verified (processing_error (py_strip u) search_term msg)
                 \<and> error (processing_error (py_strip u) search_term msg)
                     = Some (asc ''Processing error: '' @ msg))"
proof -
  let ?run = "\<lambda>(i, u). guarded_verify cm self (world i) u search_term search_in_html
                          case_sensitive"
  let ?each = "\<lambda>(i, u).
                 case verify_backlink cm self (world i) (py_strip u) search_term
                        search_in_html case_sensitive of
                   Inl msg \<Rightarrow>
                     \<lparr>r_url = py_strip u, r_search_term = search_term, verified = False,
                      error = Some (asc ''Processing error: '' @ msg),
                      status_code = None, found_in = None, r_context = None,
                      found_variation = None, warning = None\<rparr>
                 | Inr r \<Rightarrow> r"
  let ?jobs = "submitted urls"
  define results where
    "results = (if min (if vb_use_browser self then 1 else max_workers) 3 = 1
                then map ?run ?jobs else map ?run (as_completed order ?jobs))"
  have res: "verify_multiple_backlinks cm self world order urls search_term search_in_html
             case_sensitive max_workers use_browser = Inr results"
    unfolding results_def using browser workers by (rule batch_returns)
  have same_fun: "?run = ?each"
    by (auto simp: guarded_verify_def processing_error_def fun_eq_iff split: sum.splits)
  have ms: "mset results = mset (map ?run ?jobs)"
    using mset_as_completed [OF order] by (simp add: results_def)
  have ms_each: "mset results = mset (map ?each ?jobs)"
    using ms by (simp only: same_fun)
  have len: "length results = length (filter (\<lambda>u. py_strip u \<noteq> []) urls)"
    using mset_eq_length [OF ms] by (simp add: submitted_length)
  have total: "total_urls (summary_of results) = length (filter (\<lambda>u. py_strip u \<noteq> []) urls)"
    by (simp add: summary_of_eq len)
  have "map r_url (map ?run ?jobs) = map py_strip (map snd ?jobs)"
    by (auto simp: guarded_verify_url)
  then have "mset (map r_url (map ?run ?jobs))
      = mset (map py_strip (filter (\<lambda>u. py_strip u \<noteq> []) urls))"
    by (simp only: submitted_urls)
  moreover have "mset (map r_url results) = mset (map r_url (map ?run ?jobs))"
    using ms by (metis mset_map)
  ultimately have urls: "mset (map r_url results)
      = mset (map py_strip (filter (\<lambda>u. py_strip u \<noteq> []) urls))" by simp
  have same: "set results = set (map ?run ?jobs)" using ms by (rule mset_eq_setD)
  have member: "?run (i, u) \<in> set results" if "(i, u) \<in> set ?jobs" for i u
  proof -
    from that have "?run (i, u) \<in> set (map ?run ?jobs)" by force
    then show ?thesis using same by simp
  qed
  have good: "r \<in> set results"
    if "(i, u) \<in> set ?jobs"
      and "verify_backlink cm self (world i) (py_strip u) search_term search_in_html
             case_sensitive = Inr r" for i u r
    using member [OF that(1)] that(2) by (simp add: guarded_verify_def)
  have exc: "processing_error (py_strip u) search_term msg \<in> set results
             \<and> \<not> verified (processing_error (py_strip u) search_term msg)
             \<and> error (processing_error (py_strip u) search_term msg)
                 = Some (asc ''Processing error: '' @ msg)"
    if "(i, u) \<in> set ?jobs"
      and "verify_backlink cm self (world i) (py_strip u) search_term search_in_html
             case_sensitive = Inl msg" for i u msg
    using member [OF that(1)] that(2) by (simp add: guarded_verify_def processing_error_def)
  have all_good: "\<forall>(i, u) \<in> set ?jobs. \<forall>r.
               verify_backlink cm self (world i) (py_strip u) search_term search_in_html
                 case_sensitive = Inr r
               \<longrightarrow> r \<in> set results"
    using good by blast
  have all_exc: "\<forall>(i, u) \<in> set ?jobs. \<forall>msg.
               verify_backlink cm self (world i) (py_strip u) search_term search_in_html
                 case_sensitive = Inl msg
               \<longrightarrow> processing_error (py_strip u) search_term msg \<in> set results
                 \<and> \<not> verified (processing_error (py_strip u) search_term msg)
                 \<and> error (processing_error (py_strip u) search_term msg)
                     = Some (asc ''Processing error: '' @ msg)"
    using exc by blast
  show ?thesis
    by (rule exI [of _ results]) (use res ms_each len total urls all_good all_exc in blast)
qed

text \<open>
  Five URLs, a line that is a no-break space and a line of blanks, with three workers
  that finish in the order 2, 0, 1, 4, 3: five results, among them the verified result of
  the first URL and the processing error of the second, whose URL has lost the blank
  before it and the no-break space after it.
\<close>

theorem batch_one_result_per_url_witness:
  "(1::int) \<le> 3
   \<and> mset [2, 0, 1, 4, 3] = mset [0..<length (submitted seven_lines)]
   \<and> map snd (submitted seven_lines)
       = [asc ''a.test'', 32 # asc ''b.test'' @ [160], asc ''c.test'', asc ''d.test'', asc ''e.test'']
   \<and> (0, asc ''a.test'') \<in> set (submitted seven_lines)
   \<and> verify_backlink latin_case default_verifier (flaky_world 0) (py_strip (asc ''a.test''))
        (asc ''example.com'') True False = Inr found_result
   \<and> (1, 32 # asc ''b.test'' @ [160]) \<in> set (submitted seven_lines)
   \<and> verify_backlink latin_case default_verifier (flaky_world 1)
        (py_strip (32 # asc ''b.test'' @ [160])) (asc ''example.com'') True False
        = Inl (asc ''Invalid IPv6 URL'')
   \<and> (\<exists>results.
         verify_multiple_backlinks latin_case default_verifier flaky_world [2, 0, 1, 4, 3]
           seven_lines (asc ''example.com'') True False 3 False = Inr results
       \<and> length results = 5
       \<and> total_urls (summary_of results) = 5
       \<and> found_result \<in> set results
       \<and> processing_error (asc ''b.test'') (asc ''example.com'') (asc ''Invalid IPv6 URL'')
           \<in> set results)"
proof -
  have b: "False \<longrightarrow> vb_use_browser default_verifier" by simp
  have w: "(1::int) \<le> 3" by simp
  have jobs: "submitted seven_lines
      = [(0, asc ''a.test''), (1, 32 # asc ''b.test'' @ [160]), (2, asc ''c.test''),
         (3, asc ''d.test''), (4, asc ''e.test'')]"
    by code_simp
  have n: "length (submitted seven_lines) = 5" by (simp add: jobs)
  have upt: "[0..<5] = [0, 1, 2, 3, 4::nat]" by code_simp
  have ord: "mset [2, 0, 1, 4, 3] = mset [0..<length (submitted seven_lines)]"
    by (simp only: n upt; simp)
  have urls: "map snd (submitted seven_lines)
       = [asc ''a.test'', 32 # asc ''b.test'' @ [160], asc ''c.test'', asc ''d.test'',
          asc ''e.test'']"
    by (simp add: jobs)
  have job0: "(0, asc ''a.test'') \<in> set (submitted seven_lines)" by (simp add: jobs)
  have job1: "(1, 32 # asc ''b.test'' @ [160]) \<in> set (submitted seven_lines)"
    by (simp add: jobs)
  have strip: "py_strip (32 # asc ''b.test'' @ [160]) = asc ''b.test''" by code_simp
  have served: "verify_backlink latin_case default_verifier (flaky_world 0)
                  (py_strip (asc ''a.test'')) (asc ''example.com'') True False = Inr found_result"
    by code_simp
  have raised: "verify_backlink latin_case default_verifier (flaky_world 1)
                  (py_strip (32 # asc ''b.test'' @ [160])) (asc ''example.com'') True False
                = Inl (asc ''Invalid IPv6 URL'')"
    by code_simp
  have five: "length (filter (\<lambda>u. py_strip u \<noteq> []) seven_lines) = 5"
    using n by (simp add: submitted_length)
  from batch_one_result_per_url [OF b w ord, of latin_case flaky_world "asc ''example.com''"
      True False]
  obtain results where r:
    "verify_multiple_backlinks latin_case default_verifier flaky_world [2, 0, 1, 4, 3]
       seven_lines (asc ''example.com'') True False 3 False = Inr results"
    "length results = length (filter (\<lambda>u. py_strip u \<noteq> []) seven_lines)"
    "total_urls (summary_of results) = length (filter (\<lambda>u. py_strip u \<noteq> []) seven_lines)"
    "\<forall>(i, u) \<in> set (submitted seven_lines). \<forall>r.
       verify_backlink latin_case default_verifier (flaky_world i) (py_strip u)
         (asc ''example.com'') True False = Inr r
       \<longrightarrow> r \<in> set results"
    "\<forall>(i, u) \<in> set (submitted seven_lines). \<forall>msg.
       verify_backlink latin_case default_verifier (flaky_world i) (py_strip u)
         (asc ''example.com'') True False = Inl msg
       \<longrightarrow> processing_error (py_strip u) (asc ''example.com'') msg \<in> set results
         \<and> \<not> verified (processing_error (py_strip u) (asc ''example.com'') msg)
         \<and> error (processing_error (py_strip u) (asc ''example.com'') msg)
             = Some (asc ''Processing error: '' @ msg)"
    by blast
  from r(4) job0 served have in0: "found_result \<in> set results"
    by blast
  from r(5) job1 raised
  have "processing_error (py_strip (32 # asc ''b.test'' @ [160])) (asc ''example.com'')
          (asc ''Invalid IPv6 URL'') \<in> set results"
    by blast
  then have in1: "processing_error (asc ''b.test'') (asc ''example.com'') (asc ''Invalid IPv6 URL'')
                    \<in> set results"
    by (simp only: strip)
  from r(1) r(2) r(3) five in0 in1
  have "\<exists>results.
         verify_multiple_backlinks latin_case default_verifier flaky_world [2, 0, 1, 4, 3]
           seven_lines (asc ''example.com'') True False 3 False = Inr results
       \<and> length results = 5
       \<and> total_urls (summary_of results) = 5
       \<and> found_result \<in> set results
       \<and> processing_error (asc ''b.test'') (asc ''example.com'') (asc ''Invalid IPv6 URL'')
           \<in> set results"
    by auto
  with w ord urls job0 served job1 raised show ?thesis by blast
qed

end
